theory Spec2Isabelle
  imports Complex_Main "HOL-Library.Word" "HOL-Library.AList" "HOL-Library.Signed_Division"
    "HOL-Library.Multiset"
begin

section \<open>The profile data model\<close>

text \<open>
  The analyzers consume parsed profiles of \<^verbatim>\<open>github.com/google/pprof/profile\<close>. Only the
  fields the analyzers read are kept. Go's \<^verbatim>\<open>int64\<close> is a 64-bit word: addition and
  subtraction wrap, comparisons read the word as two's complement. A \<^verbatim>\<open>*profile.Function\<close>
  may be nil, which is the only pointer the analyzers test; it is an option here.
\<close>

type_synonym int64 = "64 word"

record ValueType =
  Type :: string
  Unit :: string

record Function =
  Name :: string

record Line =
  Function :: "Function option"

record Location =
  Line :: "Line list"

record Sample =
  Value :: "int64 list"
  Location :: "Location list"

record Profile =
  SampleType :: "ValueType list"
  Sample :: "Sample list"

section \<open>Go primitives used by the analyzers\<close>

text \<open>Signed comparison of two \<^verbatim>\<open>int64\<close> values.\<close>

definition lt64 :: "int64 \<Rightarrow> int64 \<Rightarrow> bool" where
  "lt64 a b = (sint a < sint b)"

text \<open>
  Go's \<^verbatim>\<open>/\<close> on \<^verbatim>\<open>int64\<close> truncates towards zero and panics when the divisor is zero;
  \<open>div64\<close> is the quotient for a nonzero divisor, and every caller below tests the divisor
  the way the source does (or does not).
\<close>

definition div64 :: "int64 \<Rightarrow> int64 \<Rightarrow> int64" where
  "div64 a b = word_of_int (sint a sdiv sint b)"

text \<open>
  A \<^verbatim>\<open>float64\<close> is idealised: a finite value is a real number (rounding is not modelled),
  and the three exceptional values that a division by zero produces are kept, because
  \<^verbatim>\<open>encoding/json\<close> refuses them.
\<close>

datatype float64 = Finite real | PosInf | NegInf | NaN

definition to_float :: "int64 \<Rightarrow> real" where
  "to_float v = real_of_int (sint v)"

text \<open>The expression \<^verbatim>\<open>float64(a) / float64(b) * 100\<close>.\<close>

definition percentOf :: "int64 \<Rightarrow> int64 \<Rightarrow> float64" where
  "percentOf a b =
     (if b = 0 then (if a = 0 then NaN else if lt64 0 a then PosInf else NegInf)
      else Finite (to_float a / to_float b * 100))"

fun isFinite :: "float64 \<Rightarrow> bool" where
  "isFinite (Finite r) = True"
| "isFinite PosInf = False"
| "isFinite NegInf = False"
| "isFinite NaN = False"

text \<open>
  Ranging over a Go map visits the entries in an order the runtime chooses. The choice is
  a parameter: \<open>range_order seed xs\<close> picks, for each number of the seed, one of the
  remaining entries, and keeps the rest in storage order. Every order can be chosen, and
  the result is always a rearrangement of the entries.
\<close>

fun range_order :: "nat list \<Rightarrow> 'a list \<Rightarrow> 'a list" where
  "range_order [] xs = xs"
| "range_order (s # ss) [] = []"
| "range_order (s # ss) (x # xs) =
     (let i = s mod length (x # xs)
      in (x # xs) ! i # range_order ss (take i (x # xs) @ drop (Suc i) (x # xs)))"

text \<open>
  \<^verbatim>\<open>sort.Slice(s, less)\<close> rearranges the slice so that no element is less than one
  before it; it is not stable. It is modelled by insertion; together with \<open>range_order\<close>
  on the input every outcome of an unstable sort is covered.
\<close>

fun insert_Slice :: "('a \<Rightarrow> 'a \<Rightarrow> bool) \<Rightarrow> 'a \<Rightarrow> 'a list \<Rightarrow> 'a list" where
  "insert_Slice lessFn x [] = [x]"
| "insert_Slice lessFn x (y # ys) =
     (if lessFn x y then x # y # ys else y # insert_Slice lessFn x ys)"

definition sort_Slice :: "('a \<Rightarrow> 'a \<Rightarrow> bool) \<Rightarrow> 'a list \<Rightarrow> 'a list" where
  "sort_Slice lessFn xs = foldr (insert_Slice lessFn) xs []"

text \<open>A Go map with string keys, as an association list with distinct keys.\<close>

type_synonym 'v gomap = "(string \<times> 'v) list"

text \<open>Reading a \<^verbatim>\<open>map[string]int64\<close> at a missing key gives the zero value.\<close>

definition lookup0 :: "int64 gomap \<Rightarrow> string \<Rightarrow> int64" where
  "lookup0 m k = (case map_of m k of None \<Rightarrow> 0 | Some v \<Rightarrow> v)"

text \<open>\<^verbatim>\<open>fmt.Sprintf("%d", n)\<close> for a length.\<close>

fun digits :: "nat \<Rightarrow> string" where
  "digits n =
     (if n < 10 then [''0123456789'' ! n]
      else digits (n div 10) @ [''0123456789'' ! (n mod 10)])"

declare digits.simps [simp del]

section \<open>Errors\<close>

text \<open>
  Every error value and runtime panic of the analyzers. An integer division by zero is a
  runtime panic in Go; it is a result here, so that it can be stated.
\<close>

datatype error =
    MissingSampleTypes
  | MarshalFailed
  | TooFewProfiles nat
  | LabelCountMismatch nat nat
  | PanicDivideByZero
  | PanicIndexOutOfRange

section \<open>Block and mutex analysis\<close>

text \<open>
  \<^verbatim>\<open>AnalyzeBlockProfile\<close> and \<^verbatim>\<open>AnalyzeMutexProfile\<close> are the same text up to the names of
  their types, the profile kind tag and the literal messages, so one definition with the
  kind as a parameter embeds both. The formatted-string fields of the statistics
  (\<^verbatim>\<open>DelayFormatted\<close>, \<^verbatim>\<open>AvgDelayFormatted\<close>) are renderings of the numeric fields and are
  left out.
\<close>

datatype kind = Block | Mutex

record ContentionStat =
  FunctionName :: string
  Contentions :: int64
  DelayNanos :: int64
  ContentionsPct :: float64
  DelayPct :: float64
  AvgDelayNanos :: int64

record AnalysisResult =
  ProfileType :: kind
  TotalContentions :: int64
  TotalDelayNanos :: int64
  TopN :: int
  Entries :: "ContentionStat list"

text \<open>
  The string an analyzer returns is kept as a document: the fixed message, the JSON
  object, or the table with its totals and its ranked rows (rank and statistics).
\<close>

datatype table_format = Markdown | Text

datatype report =
    NoContention kind
  | JSONReport AnalysisResult
  | TableReport table_format int64 int64 "(int \<times> ContentionStat) list"

text \<open>The column lookup: the last column named "contentions" and the last named "delay".\<close>

fun sampleTypeIndices :: "ValueType list \<Rightarrow> int \<Rightarrow> int \<times> int \<Rightarrow> int \<times> int" where
  "sampleTypeIndices [] i acc = acc"
| "sampleTypeIndices (st # sts) i (contentionIndex, delayIndex) =
     sampleTypeIndices sts (i + 1)
       (if Type st = ''contentions'' then (i, delayIndex)
        else if Type st = ''delay'' then (contentionIndex, i)
        else (contentionIndex, delayIndex))"

text \<open>The name of the first line of a location that has a function, else the default.\<close>

fun firstFunctionName :: "Line list \<Rightarrow> string \<Rightarrow> string" where
  "firstFunctionName [] d = d"
| "firstFunctionName (l # ls) d =
     (case Function l of Some f \<Rightarrow> Name f | None \<Rightarrow> firstFunctionName ls d)"

definition topFunctionName :: "Location \<Rightarrow> string" where
  "topFunctionName loc =
     (let functionName = firstFunctionName (Line loc) ''''
      in if functionName = '''' then ''unknown'' else functionName)"

record aggregation =
  contentionData :: "ContentionStat gomap"
  totalContentions :: int64
  totalDelay :: int64

text \<open>
  One turn of the aggregation loop. A function seen before has its two sums increased and
  nothing else; a function seen for the first time gets its average from this sample
  alone, by a division that is not guarded.
\<close>

definition aggregateSample :: "int \<Rightarrow> int \<Rightarrow> aggregation \<Rightarrow> Sample \<Rightarrow> error + aggregation" where
  "aggregateSample contentionIndex delayIndex agg s =
     (if length (Location s) = 0 \<or> int (length (Value s)) \<le> max contentionIndex delayIndex
      then Inr agg
      else
        let contentions = Value s ! nat contentionIndex;
            delay = Value s ! nat delayIndex;
            functionName = topFunctionName (hd (Location s))
        in case map_of (contentionData agg) functionName of
             Some stat \<Rightarrow>
               Inr \<lparr>contentionData =
                      AList.update functionName
                        (stat\<lparr>Contentions := Contentions stat + contentions,
                              DelayNanos := DelayNanos stat + delay\<rparr>)
                        (contentionData agg),
                    totalContentions = totalContentions agg + contentions,
                    totalDelay = totalDelay agg + delay\<rparr>
           | None \<Rightarrow>
               if contentions = 0 then Inl PanicDivideByZero
               else
                 Inr \<lparr>contentionData =
                        AList.update functionName
                          \<lparr>FunctionName = functionName, Contentions = contentions,
                           DelayNanos = delay, ContentionsPct = Finite 0,
                           DelayPct = Finite 0, AvgDelayNanos = div64 delay contentions\<rparr>
                          (contentionData agg),
                      totalContentions = totalContentions agg + contentions,
                      totalDelay = totalDelay agg + delay\<rparr>)"

fun aggregateSamples :: "int \<Rightarrow> int \<Rightarrow> aggregation \<Rightarrow> Sample list \<Rightarrow> error + aggregation" where
  "aggregateSamples ci di agg [] = Inr agg"
| "aggregateSamples ci di agg (s # ss) =
     (case aggregateSample ci di agg s of
        Inl e \<Rightarrow> Inl e
      | Inr agg' \<Rightarrow> aggregateSamples ci di agg' ss)"

definition emptyAggregation :: aggregation where
  "emptyAggregation = \<lparr>contentionData = [], totalContentions = 0, totalDelay = 0\<rparr>"

text \<open>Steps 1 and 2 of the analyzers: the columns, then the aggregation.\<close>

definition aggregateProfile :: "Profile \<Rightarrow> error + aggregation" where
  "aggregateProfile p =
     (case sampleTypeIndices (SampleType p) 0 (- 1, - 1) of
        (contentionIndex, delayIndex) \<Rightarrow>
          if contentionIndex = - 1 \<or> delayIndex = - 1 then Inl MissingSampleTypes
          else aggregateSamples contentionIndex delayIndex emptyAggregation (Sample p))"

text \<open>Step 3: the percentages of every group, in the order the map is ranged over, then
  the sort by descending delay.\<close>

definition withPercentages :: "int64 \<Rightarrow> int64 \<Rightarrow> ContentionStat \<Rightarrow> ContentionStat" where
  "withPercentages totalC totalD stat =
     stat\<lparr>ContentionsPct := percentOf (Contentions stat) totalC,
          DelayPct := percentOf (DelayNanos stat) totalD\<rparr>"

definition rankedStats :: "nat list \<Rightarrow> aggregation \<Rightarrow> ContentionStat list" where
  "rankedStats seed agg =
     sort_Slice (\<lambda>a b. lt64 (DelayNanos b) (DelayNanos a))
       (map (\<lambda>(name, stat). withPercentages (totalContentions agg) (totalDelay agg) stat)
          (range_order seed (contentionData agg)))"

text \<open>Step 4: the row limit and the table rows of the text and markdown renderings.\<close>

definition rowLimit :: "int \<Rightarrow> 'a list \<Rightarrow> int" where
  "rowLimit topN stats = (if topN > int (length stats) then int (length stats) else topN)"

definition tableRows :: "int \<Rightarrow> 'a list \<Rightarrow> (int \<times> 'a) list" where
  "tableRows topN stats =
     map (\<lambda>i. (int i + 1, stats ! i)) [0 ..< nat (rowLimit topN stats)]"

definition marshalable :: "ContentionStat \<Rightarrow> bool" where
  "marshalable stat = (isFinite (ContentionsPct stat) \<and> isFinite (DelayPct stat))"

definition analyzeContention :: "kind \<Rightarrow> nat list \<Rightarrow> Profile \<Rightarrow> int \<Rightarrow> string \<Rightarrow> error + report" where
  "analyzeContention k seed p topN format =
     (case aggregateProfile p of
        Inl e \<Rightarrow> Inl e
      | Inr agg \<Rightarrow>
          if totalContentions agg = 0 then Inr (NoContention k)
          else
            let stats = rankedStats seed agg
            in if format = ''json'' then
                 (if list_all marshalable stats
                  then Inr (JSONReport \<lparr>ProfileType = k,
                         TotalContentions = totalContentions agg,
                         TotalDelayNanos = totalDelay agg, TopN = topN, Entries = stats\<rparr>)
                  else Inl MarshalFailed)
               else
                 Inr (TableReport (if format = ''markdown'' then Markdown else Text)
                        (totalContentions agg) (totalDelay agg) (tableRows topN stats)))"

definition AnalyzeBlockProfile :: "nat list \<Rightarrow> Profile \<Rightarrow> int \<Rightarrow> string \<Rightarrow> error + report" where
  "AnalyzeBlockProfile = analyzeContention Block"

definition AnalyzeMutexProfile :: "nat list \<Rightarrow> Profile \<Rightarrow> int \<Rightarrow> string \<Rightarrow> error + report" where
  "AnalyzeMutexProfile = analyzeContention Mutex"

text \<open>A profile with the two columns and one sample per (function, contentions, delay).\<close>

definition sampleOf :: "string \<Rightarrow> int64 list \<Rightarrow> Sample" where
  "sampleOf name vs =
     \<lparr>Value = vs, Location = [\<lparr>Line = [\<lparr>Function = Some \<lparr>Name = name\<rparr>\<rparr>]\<rparr>]\<rparr>"

definition contentionProfile :: "Sample list \<Rightarrow> Profile" where
  "contentionProfile ss =
     \<lparr>SampleType = [\<lparr>Type = ''contentions'', Unit = ''count''\<rparr>,
                    \<lparr>Type = ''delay'', Unit = ''nanoseconds''\<rparr>],
      Sample = ss\<rparr>"

section \<open>Differential comparison\<close>

text \<open>
  The fields of \<^verbatim>\<open>FunctionDiff\<close> and \<^verbatim>\<open>DiffResult\<close> whose names the contention records
  already use carry the prefix \<open>Diff\<close>; the formatted-string fields are left out. Every
  division below is guarded by a positive divisor, so the percentages are finite and are
  reals.
\<close>

record FunctionDiff =
  DiffFunctionName :: string
  BaselineValue :: int64
  TargetValue :: int64
  DiffValue :: int64
  DiffPercentage :: real

record DiffSummary =
  BaselineTotal :: int64
  TargetTotal :: int64
  TotalDiff :: int64
  TotalDiffPercent :: real
  ImprovedFuncs :: nat
  RegressedFuncs :: nat
  AddedFuncs :: nat
  RemovedFuncs :: nat

record DiffResult =
  DiffProfileType :: string
  DiffTopN :: int
  Functions :: "FunctionDiff list"
  Summary :: DiffSummary

datatype diff_report =
    DiffJSON DiffResult
  | DiffTable table_format DiffSummary "(int \<times> FunctionDiff) list"

text \<open>The test that the \<^verbatim>\<open>switch\<close> of \<^verbatim>\<open>getValueIndex\<close> makes on one column.\<close>

definition sampleTypeMatches :: "string \<Rightarrow> ValueType \<Rightarrow> bool" where
  "sampleTypeMatches profileType st =
     (if profileType = ''cpu'' then
        Type st = ''cpu'' \<or> (Type st = ''samples'' \<and> Unit st = ''nanoseconds'')
      else if profileType = ''heap'' \<or> profileType = ''allocs'' then
        Type st = ''inuse_space'' \<or> Type st = ''alloc_space''
      else if profileType = ''mutex'' \<or> profileType = ''block'' then
        Type st = ''delay''
      else False)"

fun firstMatching :: "string \<Rightarrow> ValueType list \<Rightarrow> int \<Rightarrow> int option" where
  "firstMatching profileType [] i = None"
| "firstMatching profileType (st # sts) i =
     (if sampleTypeMatches profileType st then Some i
      else firstMatching profileType sts (i + 1))"

definition getValueIndex :: "Profile \<Rightarrow> string \<Rightarrow> error + int" where
  "getValueIndex p profileType =
     (case firstMatching profileType (SampleType p) 0 of
        Some i \<Rightarrow> Inr i
      | None \<Rightarrow> if length (SampleType p) > 1 then Inr 1 else Inr 0)"

definition addSampleValue :: "int \<Rightarrow> int64 gomap \<Rightarrow> Sample \<Rightarrow> int64 gomap" where
  "addSampleValue valueIndex result sample =
     (if length (Location sample) = 0 \<or> int (length (Value sample)) \<le> valueIndex
      then result
      else
        let v = Value sample ! nat valueIndex;
            functionName = firstFunctionName (Line (hd (Location sample))) ''unknown''
        in AList.update functionName (lookup0 result functionName + v) result)"

definition aggregateFunctionValues :: "Profile \<Rightarrow> int \<Rightarrow> int64 gomap" where
  "aggregateFunctionValues p valueIndex = foldl (addSampleValue valueIndex) [] (Sample p)"

definition functionDiff :: "string \<Rightarrow> int64 \<Rightarrow> int64 \<Rightarrow> FunctionDiff" where
  "functionDiff name baselineVal targetVal =
     (let diff = targetVal - baselineVal;
          diffPercent =
            (if lt64 0 baselineVal then to_float diff / to_float baselineVal * 100
             else if lt64 0 targetVal then 100
             else 0)
      in \<lparr>DiffFunctionName = name, BaselineValue = baselineVal, TargetValue = targetVal,
          DiffValue = diff, DiffPercentage = diffPercent\<rparr>)"

text \<open>The set \<^verbatim>\<open>allFuncs\<close>: the names of the baseline, then the new ones of the target.\<close>

definition allFuncs :: "int64 gomap \<Rightarrow> int64 gomap \<Rightarrow> bool gomap" where
  "allFuncs baselineFuncs targetFuncs =
     foldl (\<lambda>m name. AList.update name True m)
       (foldl (\<lambda>m name. AList.update name True m) [] (map fst baselineFuncs))
       (map fst targetFuncs)"

definition computeFunctionDiffs :: "nat list \<Rightarrow> int64 gomap \<Rightarrow> int64 gomap \<Rightarrow> FunctionDiff list" where
  "computeFunctionDiffs seed baselineFuncs targetFuncs =
     map (\<lambda>(name, present).
            functionDiff name (lookup0 baselineFuncs name) (lookup0 targetFuncs name))
       (range_order seed (allFuncs baselineFuncs targetFuncs))"

text \<open>The four counters of \<^verbatim>\<open>computeDiffSummary\<close>: improved, regressed, added, removed.\<close>

definition countDiff :: "nat \<times> nat \<times> nat \<times> nat \<Rightarrow> FunctionDiff \<Rightarrow> nat \<times> nat \<times> nat \<times> nat" where
  "countDiff c d =
     (case c of (improved, regressed, added, removed) \<Rightarrow>
        if BaselineValue d = 0 \<and> lt64 0 (TargetValue d) then
          (improved, regressed, added + 1, removed)
        else if TargetValue d = 0 \<and> lt64 0 (BaselineValue d) then
          (improved, regressed, added, removed + 1)
        else if lt64 (DiffValue d) 0 then (improved + 1, regressed, added, removed)
        else if lt64 0 (DiffValue d) then (improved, regressed + 1, added, removed)
        else (improved, regressed, added, removed))"

definition computeDiffSummary :: "int64 gomap \<Rightarrow> int64 gomap \<Rightarrow> FunctionDiff list \<Rightarrow> DiffSummary" where
  "computeDiffSummary baselineFuncs targetFuncs diffList =
     (let baselineTotal = foldl (\<lambda>t (name, v). t + v) 0 baselineFuncs;
          targetTotal = foldl (\<lambda>t (name, v). t + v) 0 targetFuncs;
          totalDiff = targetTotal - baselineTotal;
          totalDiffPercent =
            (if lt64 0 baselineTotal then to_float totalDiff / to_float baselineTotal * 100
             else 0)
      in case foldl countDiff (0, 0, 0, 0) diffList of
           (improved, regressed, added, removed) \<Rightarrow>
             \<lparr>BaselineTotal = baselineTotal, TargetTotal = targetTotal,
              TotalDiff = totalDiff, TotalDiffPercent = totalDiffPercent,
              ImprovedFuncs = improved, RegressedFuncs = regressed,
              AddedFuncs = added, RemovedFuncs = removed\<rparr>)"

definition formatDiffReport :: "FunctionDiff list \<Rightarrow> DiffSummary \<Rightarrow> string \<Rightarrow> int \<Rightarrow> string \<Rightarrow> diff_report" where
  "formatDiffReport diffList summary profileType topN format =
     DiffTable (if format = ''markdown'' then Markdown else Text) summary (tableRows topN diffList)"

text \<open>The list \<^verbatim>\<open>diffs\<close> of \<^verbatim>\<open>CompareProfiles\<close> after its sort.\<close>

definition rankedDiffs :: "nat list \<Rightarrow> int64 gomap \<Rightarrow> int64 gomap \<Rightarrow> FunctionDiff list" where
  "rankedDiffs seed baselineFuncs targetFuncs =
     sort_Slice (\<lambda>a b. \<bar>DiffPercentage a\<bar> > \<bar>DiffPercentage b\<bar>)
       (computeFunctionDiffs seed baselineFuncs targetFuncs)"

definition CompareProfiles :: "nat list \<Rightarrow> Profile \<Rightarrow> Profile \<Rightarrow> string \<Rightarrow> int \<Rightarrow> string \<Rightarrow> error + diff_report" where
  "CompareProfiles seed baseline target profileTypeName topN format =
     (case getValueIndex baseline profileTypeName of
        Inl err \<Rightarrow> Inl err
      | Inr valueIndex \<Rightarrow>
          let baselineFuncs = aggregateFunctionValues baseline valueIndex;
              targetFuncs = aggregateFunctionValues target valueIndex;
              diffList = rankedDiffs seed baselineFuncs targetFuncs;
              summary = computeDiffSummary baselineFuncs targetFuncs diffList
          in if format = ''json'' then
               Inr (DiffJSON \<lparr>DiffProfileType = profileTypeName, DiffTopN = topN,
                      Functions = diffList, Summary = summary\<rparr>)
             else Inr (formatDiffReport diffList summary profileTypeName topN format))"

section \<open>Heap time series\<close>

text \<open>
  The \<^verbatim>\<open>Timestamp\<close> of a point is the wall clock and the \<^verbatim>\<open>FormattedValues\<close> of a trend
  are renderings; both are left out.
\<close>

record TimeSeriesData =
  Label :: string
  TotalBytes :: int64
  TotalObjects :: int64

record ObjectTrend =
  TypeName :: string
  Values :: "int64 list"
  GrowthBytes :: int64
  GrowthPercent :: real
  GrowthRate :: real
  TrendDirection :: string

record TimeSeriesSummary =
  DataPoints :: nat
  TimeSpanMinutes :: real
  TotalGrowth :: int64
  AvgGrowthRate :: real
  GrowingObjects :: nat
  StableObjects :: nat

record TimeSeriesAnalysisResult =
  Series :: "TimeSeriesData list"
  Trends :: "ObjectTrend list"
  SeriesSummary :: TimeSeriesSummary

datatype series_report =
    SeriesJSON TimeSeriesAnalysisResult
  | SeriesTable table_format "TimeSeriesData list" "ObjectTrend list" TimeSeriesSummary

text \<open>The last column of a given name, or \<open>- 1\<close> (the loop of
  \<^verbatim>\<open>extractTimeSeriesData\<close> has no \<^verbatim>\<open>break\<close>).\<close>

fun lastIndexOf :: "string \<Rightarrow> ValueType list \<Rightarrow> int \<Rightarrow> int \<Rightarrow> int" where
  "lastIndexOf name [] j found = found"
| "lastIndexOf name (st # sts) j found =
     lastIndexOf name sts (j + 1) (if Type st = name then j else found)"

text \<open>The first column of a given name, or \<open>- 1\<close> (the loop of
  \<^verbatim>\<open>analyzeObjectTrends\<close> breaks at the first match).\<close>

fun firstIndexOf :: "string \<Rightarrow> ValueType list \<Rightarrow> int \<Rightarrow> int" where
  "firstIndexOf name [] j = - 1"
| "firstIndexOf name (st # sts) j =
     (if Type st = name then j else firstIndexOf name sts (j + 1))"

definition columnTotal :: "int \<Rightarrow> Sample list \<Rightarrow> int64" where
  "columnTotal idx samples =
     foldl (\<lambda>total sample.
              if idx \<ge> 0 \<and> int (length (Value sample)) > idx
              then total + Value sample ! nat idx else total)
       0 samples"

definition seriesPoint :: "Profile \<Rightarrow> string \<Rightarrow> TimeSeriesData" where
  "seriesPoint prof label =
     \<lparr>Label = label,
      TotalBytes = columnTotal (lastIndexOf ''inuse_space'' (SampleType prof) 0 (- 1)) (Sample prof),
      TotalObjects =
        columnTotal (lastIndexOf ''inuse_objects'' (SampleType prof) 0 (- 1)) (Sample prof)\<rparr>"

text \<open>Reading \<^verbatim>\<open>labels[i]\<close> beyond the labels is a runtime panic.\<close>

fun extractTimeSeriesData :: "Profile list \<Rightarrow> string list \<Rightarrow> error + TimeSeriesData list" where
  "extractTimeSeriesData [] labels = Inr []"
| "extractTimeSeriesData (prof # profs) [] = Inl PanicIndexOutOfRange"
| "extractTimeSeriesData (prof # profs) (label # labels) =
     (case extractTimeSeriesData profs labels of
        Inl e \<Rightarrow> Inl e
      | Inr series \<Rightarrow> Inr (seriesPoint prof label # series))"

fun getObjectTypeFromLines :: "Line list \<Rightarrow> string option" where
  "getObjectTypeFromLines [] = None"
| "getObjectTypeFromLines (l # ls) =
     (case Function l of Some f \<Rightarrow> Some (Name f) | None \<Rightarrow> getObjectTypeFromLines ls)"

fun getObjectTypeFromLocations :: "Location list \<Rightarrow> string" where
  "getObjectTypeFromLocations [] = ''unknown''"
| "getObjectTypeFromLocations (loc # locs) =
     (case getObjectTypeFromLines (Line loc) of
        Some name \<Rightarrow> name
      | None \<Rightarrow> getObjectTypeFromLocations locs)"

definition getObjectTypeFromSample :: "Sample \<Rightarrow> string" where
  "getObjectTypeFromSample sample = getObjectTypeFromLocations (Location sample)"

definition addTypeValue :: "int \<Rightarrow> int64 gomap \<Rightarrow> Sample \<Rightarrow> int64 gomap" where
  "addTypeValue valueIndex typeValues sample =
     (if int (length (Value sample)) \<le> valueIndex then typeValues
      else
        let v = Value sample ! nat valueIndex;
            typeName = getObjectTypeFromSample sample
        in AList.update typeName (lookup0 typeValues typeName + v) typeValues)"

text \<open>Writing one type's value of time point \<open>i\<close> into \<^verbatim>\<open>typeDataMap\<close>; a type seen for
  the first time gets a sequence of \<open>n\<close> zeros first.\<close>

definition setTypeValue :: "nat \<Rightarrow> nat \<Rightarrow> (int64 list) gomap \<Rightarrow> string \<times> int64 \<Rightarrow> (int64 list) gomap" where
  "setTypeValue n i typeDataMap entry =
     (case entry of (typeName, v) \<Rightarrow>
        (case map_of typeDataMap typeName of
           None \<Rightarrow> AList.update typeName ((replicate n 0)[i := v]) typeDataMap
         | Some vs \<Rightarrow> AList.update typeName (vs[i := v]) typeDataMap))"

definition addProfile :: "nat \<Rightarrow> (int64 list) gomap \<Rightarrow> nat \<times> Profile \<Rightarrow> (int64 list) gomap" where
  "addProfile n typeDataMap entry =
     (case entry of (i, prof) \<Rightarrow>
        let valueIndex = firstIndexOf ''inuse_space'' (SampleType prof) 0
        in if valueIndex = - 1 then typeDataMap
           else foldl (setTypeValue n i) typeDataMap
                  (foldl (addTypeValue valueIndex) [] (Sample prof)))"

definition typeDataMapOf :: "Profile list \<Rightarrow> (int64 list) gomap" where
  "typeDataMapOf profiles =
     foldl (addProfile (length profiles)) [] (zip [0 ..< length profiles] profiles)"

text \<open>One trend. The sequence has as many values as there are profiles, and a trend
  exists only when there is a profile, so reading its first and last value succeeds.\<close>

definition objectTrend :: "string \<Rightarrow> int64 list \<Rightarrow> ObjectTrend" where
  "objectTrend typeName vs =
     (let firstVal = vs ! 0;
          lastVal = vs ! (length vs - 1);
          growthBytes = lastVal - firstVal;
          growthPercent =
            (if lt64 0 firstVal then to_float growthBytes / to_float firstVal * 100 else 0);
          timePoints = length vs;
          growthRate = to_float growthBytes / real timePoints / 1024 / 1024;
          trendDirection =
            (if growthPercent > 10 then ''increasing''
             else if growthPercent < - 10 then ''decreasing''
             else ''stable'')
      in \<lparr>TypeName = typeName, Values = vs, GrowthBytes = growthBytes,
          GrowthPercent = growthPercent, GrowthRate = growthRate,
          TrendDirection = trendDirection\<rparr>)"

definition analyzeObjectTrends :: "nat list \<Rightarrow> Profile list \<Rightarrow> ObjectTrend list" where
  "analyzeObjectTrends seed profiles =
     sort_Slice (\<lambda>a b. GrowthPercent a > GrowthPercent b)
       (map (\<lambda>(typeName, vs). objectTrend typeName vs)
          (range_order seed (typeDataMapOf profiles)))"

definition countTrend :: "nat \<times> nat \<Rightarrow> ObjectTrend \<Rightarrow> nat \<times> nat" where
  "countTrend c trend =
     (case c of (growing, stableN) \<Rightarrow>
        if TrendDirection trend = ''increasing'' then (growing + 1, stableN)
        else if TrendDirection trend = ''stable'' \<or> TrendDirection trend = ''decreasing''
        then (growing, stableN + 1)
        else (growing, stableN))"

definition computeTimeSeriesSummary :: "TimeSeriesData list \<Rightarrow> ObjectTrend list \<Rightarrow> TimeSeriesSummary" where
  "computeTimeSeriesSummary series trends =
     (if length series < 2 then
        \<lparr>DataPoints = length series, TimeSpanMinutes = 0, TotalGrowth = 0,
         AvgGrowthRate = 0, GrowingObjects = 0, StableObjects = 0\<rparr>
      else
        let timeSpanMinutes = real (length series - 1);
            totalGrowth = TotalBytes (series ! (length series - 1)) - TotalBytes (series ! 0);
            avgGrowthRate = to_float totalGrowth / timeSpanMinutes / 1024 / 1024
        in case foldl countTrend (0, 0) trends of
             (growing, stableN) \<Rightarrow>
               \<lparr>DataPoints = length series, TimeSpanMinutes = timeSpanMinutes,
                TotalGrowth = totalGrowth, AvgGrowthRate = avgGrowthRate,
                GrowingObjects = growing, StableObjects = stableN\<rparr>)"

definition formatTimeSeriesReport :: "TimeSeriesData list \<Rightarrow> ObjectTrend list \<Rightarrow> TimeSeriesSummary \<Rightarrow> string \<Rightarrow> series_report" where
  "formatTimeSeriesReport series trends summary format =
     SeriesTable (if format = ''markdown'' then Markdown else Text) series
       (map snd (tableRows 10 trends)) summary"

definition AnalyzeHeapTimeSeries :: "nat list \<Rightarrow> Profile list \<Rightarrow> string list \<Rightarrow> string \<Rightarrow> error + series_report" where
  "AnalyzeHeapTimeSeries seed profiles labels format =
     (if length profiles < 3 then Inl (TooFewProfiles (length profiles))
      else if length labels \<noteq> length profiles then
        Inl (LabelCountMismatch (length labels) (length profiles))
      else
        case extractTimeSeriesData profiles labels of
          Inl e \<Rightarrow> Inl e
        | Inr series \<Rightarrow>
            let trends = analyzeObjectTrends seed profiles;
                summary = computeTimeSeriesSummary series trends
            in if format = ''json'' then
                 Inr (SeriesJSON \<lparr>Series = series, Trends = trends, SeriesSummary = summary\<rparr>)
               else Inr (formatTimeSeriesReport series trends summary format))"

text \<open>
  The text of the error values, byte for byte (UTF-8), with \<^verbatim>\<open>%d\<close> filled in. Of a
  failed JSON encoding only the beginning is given: the encoder goes on to name the
  value it refused.
\<close>

fun errorMessage :: "error \<Rightarrow> string" where
  "errorMessage MissingSampleTypes =
     [CHR 0xE6, CHR 0x97, CHR 0xA0, CHR 0xE6, CHR 0xB3, CHR 0x95, CHR 0xE4, CHR 0xBB, CHR 0x8E]
     @ '' profile ''
     @ [CHR 0xE4, CHR 0xB8, CHR 0xAD, CHR 0xE6, CHR 0x89, CHR 0xBE, CHR 0xE5, CHR 0x88, CHR 0xB0,
        CHR 0xE5, CHR 0xBF, CHR 0x85, CHR 0xE9, CHR 0x9C, CHR 0x80, CHR 0xE7, CHR 0x9A, CHR 0x84,
        CHR 0xE6, CHR 0xA0, CHR 0xB7, CHR 0xE6, CHR 0x9C, CHR 0xAC, CHR 0xE7, CHR 0xB1, CHR 0xBB,
        CHR 0xE5, CHR 0x9E, CHR 0x8B]
     @ '' (contentions, delay)''"
| "errorMessage MarshalFailed = ''failed to marshal JSON: json: unsupported value''"
| "errorMessage (TooFewProfiles n) =
     [CHR 0xE8, CHR 0x87, CHR 0xB3, CHR 0xE5, CHR 0xB0, CHR 0x91, CHR 0xE9, CHR 0x9C, CHR 0x80,
      CHR 0xE8, CHR 0xA6, CHR 0x81]
     @ '' 3 '' @ [CHR 0xE4, CHR 0xB8, CHR 0xAA] @ '' profile ''
     @ [CHR 0xE6, CHR 0x9D, CHR 0xA5, CHR 0xE8, CHR 0xBF, CHR 0x9B, CHR 0xE8, CHR 0xA1, CHR 0x8C,
        CHR 0xE6, CHR 0x97, CHR 0xB6, CHR 0xE5, CHR 0xBA, CHR 0x8F, CHR 0xE5, CHR 0x88, CHR 0x86,
        CHR 0xE6, CHR 0x9E, CHR 0x90, CHR 0xEF, CHR 0xBC, CHR 0x8C, CHR 0xE5, CHR 0xBD, CHR 0x93,
        CHR 0xE5, CHR 0x89, CHR 0x8D, CHR 0xE5, CHR 0x8F, CHR 0xAA, CHR 0xE6, CHR 0x9C, CHR 0x89]
     @ '' '' @ digits n @ '' '' @ [CHR 0xE4, CHR 0xB8, CHR 0xAA]"
| "errorMessage (LabelCountMismatch l n) =
     [CHR 0xE6, CHR 0xA0, CHR 0x87, CHR 0xE7, CHR 0xAD, CHR 0xBE, CHR 0xE6, CHR 0x95, CHR 0xB0,
      CHR 0xE9, CHR 0x87, CHR 0x8F]
     @ '' ('' @ digits l @ '') '' @ [CHR 0xE4, CHR 0xB8, CHR 0x8E] @ '' profile ''
     @ [CHR 0xE6, CHR 0x95, CHR 0xB0, CHR 0xE9, CHR 0x87, CHR 0x8F]
     @ '' ('' @ digits n @ '') ''
     @ [CHR 0xE4, CHR 0xB8, CHR 0x8D, CHR 0xE5, CHR 0x8C, CHR 0xB9, CHR 0xE9, CHR 0x85, CHR 0x8D]"
| "errorMessage PanicDivideByZero = ''runtime error: integer divide by zero''"
| "errorMessage PanicIndexOutOfRange = ''runtime error: index out of range''"

text \<open>A heap profile with the two heap columns and one sample per (function, bytes,
  objects).\<close>

definition heapProfile :: "Sample list \<Rightarrow> Profile" where
  "heapProfile ss =
     \<lparr>SampleType = [\<lparr>Type = ''inuse_space'', Unit = ''bytes''\<rparr>,
                    \<lparr>Type = ''inuse_objects'', Unit = ''count''\<rparr>],
      Sample = ss\<rparr>"

section \<open>Concrete profiles\<close>

text \<open>A block or mutex profile whose only sample records no contention.\<close>

definition zeroContentionProfile :: Profile where
  "zeroContentionProfile = contentionProfile [sampleOf ''main.worker'' [0, 5000]]"

text \<open>A profile in which one function is sampled twice.\<close>

definition repeatedFunctionProfile :: Profile where
  "repeatedFunctionProfile =
     contentionProfile [sampleOf ''main.worker'' [10, 100], sampleOf ''main.worker'' [10, 300]]"

text \<open>The profile of the repository's test \<^verbatim>\<open>TestAnalyzeBlockProfileAverageDelay\<close>.\<close>

definition averageDelayProfile :: Profile where
  "averageDelayProfile = contentionProfile [sampleOf ''main.test'' [10, 100000000]]"

text \<open>A profile whose samples all carry zero in both columns.\<close>

definition idleProfile :: Profile where
  "idleProfile = contentionProfile [sampleOf ''main.idle'' [0, 0]]"

text \<open>A profile with a single column, which is none of the columns any kind asks for.\<close>

definition oneColumnProfile :: Profile where
  "oneColumnProfile =
     \<lparr>SampleType = [\<lparr>Type = ''samples'', Unit = ''count''\<rparr>],
      Sample = [sampleOf ''main.f'' [7]]\<rparr>"

text \<open>A block profile with two functions, the one with the smaller delay sampled first.\<close>

definition twoFunctionProfile :: Profile where
  "twoFunctionProfile =
     contentionProfile [sampleOf ''main.networkCall'' [50, 10000000],
                        sampleOf ''main.channelReceive'' [150, 30000000]]"



text \<open>A baseline and a target with a regressed, an improved, a removed and an added
  function.\<close>

definition baselineHeap :: Profile where
  "baselineHeap =
     heapProfile [sampleOf ''main.f'' [100, 1], sampleOf ''main.g'' [50, 1],
                  sampleOf ''main.h'' [10, 1]]"

definition targetHeap :: Profile where
  "targetHeap =
     heapProfile [sampleOf ''main.f'' [150, 1], sampleOf ''main.g'' [20, 1],
                  sampleOf ''main.k'' [70, 1]]"


text \<open>Three heap profiles with a growing, a shrinking and a steady type.\<close>

definition threeTypeSeries :: "Profile list" where
  "threeTypeSeries =
     [heapProfile [sampleOf ''main.alloc'' [1048576, 1], sampleOf ''main.cache'' [100, 1],
                   sampleOf ''main.pool'' [100, 1]],
      heapProfile [sampleOf ''main.alloc'' [2097152, 1], sampleOf ''main.cache'' [80, 1],
                   sampleOf ''main.pool'' [100, 1]],
      heapProfile [sampleOf ''main.alloc'' [4194304, 1], sampleOf ''main.cache'' [50, 1],
                   sampleOf ''main.pool'' [105, 1]]]"


section \<open>Rearrangements and sorting\<close>

lemma range_order_Nil [simp]: "range_order seed [] = []"
  by (cases seed) simp_all

lemma range_order_single [simp]: "range_order seed [x] = [x]"
  by (cases seed) (simp_all add: Let_def)




text \<open>Conversely, every rearrangement of the entries is the order of some seed.\<close>

lemma range_order_complete:
  "mset ys = mset xs \<Longrightarrow> \<exists>seed. range_order seed xs = ys"
proof (induction ys arbitrary: xs)
  case Nil
  then show ?case by (intro exI [of _ "[]"]) simp
next
  case (Cons y ys)
  then have "y \<in> set xs" by (metis list.set_intros(1) mset_eq_setD)
  then obtain i where i: "i < length xs" "xs ! i = y" by (auto simp: in_set_conv_nth)
  obtain x xs' where xs: "xs = x # xs'" using i(1) by (cases xs) auto
  let ?rest = "take i xs @ drop (Suc i) xs"
  have "mset xs = add_mset y (mset ?rest)"
    using id_take_nth_drop [OF i(1)] i(2) by (metis add_mset_add_single mset.simps(2) mset_append union_mset_add_mset_right)
  then have "mset ys = mset ?rest" using Cons.prems by simp
  then obtain ss where ss: "range_order ss ?rest = ys" using Cons.IH by blast
  have "range_order (i # ss) xs = y # ys"
    using i ss unfolding xs by (simp add: Let_def)
  then show ?case by blast
qed

lemma mset_insert_Slice: "mset (insert_Slice f x xs) = add_mset x (mset xs)"
  by (induction xs) simp_all




lemma set_insert_Slice: "set (insert_Slice f x xs) = insert x (set xs)"
  using mset_insert_Slice [of f x xs] by (metis set_mset_add_mset_insert set_mset_mset)

text \<open>A comparison "the key of the first is greater" leaves the keys in descending order.\<close>

lemma sorted_insert_Slice:
  fixes key :: "'a \<Rightarrow> 'b::linorder"
  assumes "sorted_wrt (\<lambda>a b. key b \<le> key a) xs"
  shows "sorted_wrt (\<lambda>a b. key b \<le> key a) (insert_Slice (\<lambda>a b. key b < key a) x xs)"
  using assms
proof (induction xs)
  case Nil
  then show ?case by simp
next
  case (Cons y ys)
  show ?case
  proof (cases "key y < key x")
    case True
    with Cons.prems show ?thesis by (auto intro: order_trans less_imp_le)
  next
    case False
    with Cons show ?thesis by (auto simp: set_insert_Slice)
  qed
qed

lemma sorted_sort_Slice:
  fixes key :: "'a \<Rightarrow> 'b::linorder"
  shows "sorted_wrt (\<lambda>a b. key b \<le> key a) (sort_Slice (\<lambda>a b. key b < key a) xs)"
  by (induction xs) (simp_all add: sort_Slice_def sorted_insert_Slice)

section \<open>The average delay of block and mutex analysis\<close>

lemmas contention_eval =
  AnalyzeBlockProfile_def AnalyzeMutexProfile_def analyzeContention_def aggregateProfile_def
  contentionProfile_def sampleOf_def aggregateSample_def emptyAggregation_def
  topFunctionName_def rankedStats_def withPercentages_def sort_Slice_def percentOf_def
  lt64_def to_float_def div64_def signed_divide_int_def tableRows_def rowLimit_def
  marshalable_def Let_def

text \<open>
  Claim C1 (the average is guarded against a zero contentions count; a sample whose
  contentions value is 0 does not crash the analysis). The code has no such guard: the
  first sample of a function is divided by its own contentions value. On a profile whose
  only sample has contentions 0, both analyzers end in the runtime panic of an integer
  division by zero, for every iteration order, every topN and every format.
\<close>

theorem zero_contentions_sample_panics:
  "AnalyzeBlockProfile seed zeroContentionProfile topN format = Inl PanicDivideByZero \<and>
   AnalyzeMutexProfile seed zeroContentionProfile topN format = Inl PanicDivideByZero"
  by (simp add: zeroContentionProfile_def contention_eval)

text \<open>
  The scenario of the repository's own test: one function, contentions 10 and delay
  100000000 ns, has the average 10000000.
\<close>

lemma average_delay_scenario:
  "AnalyzeBlockProfile seed averageDelayProfile topN ''json'' =
     Inr (JSONReport
       \<lparr>ProfileType = Block, TotalContentions = 10, TotalDelayNanos = 100000000, TopN = topN,
        Entries = [\<lparr>FunctionName = ''main.test'', Contentions = 10, DelayNanos = 100000000,
                    ContentionsPct = Finite 100, DelayPct = Finite 100,
                    AvgDelayNanos = 10000000\<rparr>]\<rparr>)"
  by (simp add: averageDelayProfile_def contention_eval)

text \<open>
  Claim C2 (the reported average equals the group's total delay divided by its total
  contentions, also when the totals come from more than one sample). The average is
  computed when a function is first seen and never again: for a function sampled twice,
  with (10, 100) and (10, 300), the totals are 20 and 400, the quotient of the totals is
  20, and the reported average is 10, the quotient of the first sample.
\<close>

theorem average_delay_ignores_later_samples:
  "AnalyzeBlockProfile seed repeatedFunctionProfile topN ''json'' =
     Inr (JSONReport
       \<lparr>ProfileType = Block, TotalContentions = 20, TotalDelayNanos = 400, TopN = topN,
        Entries = [\<lparr>FunctionName = ''main.worker'', Contentions = 20, DelayNanos = 400,
                    ContentionsPct = Finite 100, DelayPct = Finite 100,
                    AvgDelayNanos = 10\<rparr>]\<rparr>) \<and>
   AnalyzeMutexProfile seed repeatedFunctionProfile topN ''json'' =
     Inr (JSONReport
       \<lparr>ProfileType = Mutex, TotalContentions = 20, TotalDelayNanos = 400, TopN = topN,
        Entries = [\<lparr>FunctionName = ''main.worker'', Contentions = 20, DelayNanos = 400,
                    ContentionsPct = Finite 100, DelayPct = Finite 100,
                    AvgDelayNanos = 10\<rparr>]\<rparr>) \<and>
   div64 400 20 = 20"
  by (simp add: repeatedFunctionProfile_def contention_eval)

section \<open>The message for a profile without contention\<close>

text \<open>When the aggregation ends, the fixed message is returned exactly when the total
  of the contentions is zero.\<close>

lemma no_contention_iff:
  "aggregateProfile p = Inr agg \<Longrightarrow>
   (analyzeContention k seed p topN format = Inr (NoContention k)) = (totalContentions agg = 0)"
  by (simp add: analyzeContention_def Let_def)

text \<open>
  Claim C9 (a profile whose total of contentions is zero gets the "no contention found"
  message and no error). The test of the total comes after the aggregation, and the
  aggregation divides by the contentions of a function's first sample. A profile whose
  sample records 0 contentions and 0 delay has the total zero, and both analyzers end in
  the panic of claim C1 instead of the message.
\<close>

theorem zero_total_panics_before_message:
  "sum_list (map (\<lambda>s. Value s ! 0) (Sample idleProfile)) = 0 \<and>
   AnalyzeBlockProfile seed idleProfile topN format = Inl PanicDivideByZero \<and>
   AnalyzeMutexProfile seed idleProfile topN format = Inl PanicDivideByZero \<and>
   AnalyzeBlockProfile seed idleProfile topN format \<noteq> Inr (NoContention Block) \<and>
   AnalyzeMutexProfile seed idleProfile topN format \<noteq> Inr (NoContention Mutex)"
  by (simp add: idleProfile_def contention_eval)

section \<open>The column lookup of the comparison\<close>

lemma firstMatching_None:
  "(firstMatching k sts i = None) = (\<not> list_ex (sampleTypeMatches k) sts)"
  by (induction sts arbitrary: i) simp_all

lemma getValueIndex_total: "\<exists>i. getValueIndex p k = Inr i"
  by (simp add: getValueIndex_def split: option.split)

lemma getValueIndex_fallback:
  "\<not> list_ex (sampleTypeMatches k) (SampleType p) \<Longrightarrow>
   getValueIndex p k = Inr (if length (SampleType p) > 1 then 1 else 0)"
  using firstMatching_None [of k "SampleType p" 0] by (simp add: getValueIndex_def)

lemma CompareProfiles_total: "\<exists>r. CompareProfiles seed b t k topN format = Inr r"
proof -
  obtain i where "getValueIndex b k = Inr i" using getValueIndex_total by blast
  then show ?thesis by (simp add: CompareProfiles_def Let_def)
qed

lemma sampleTypeIndices_fst:
  "0 \<le> i \<Longrightarrow> (fst (sampleTypeIndices sts i (c, d)) = - 1) =
     (c = - 1 \<and> \<not> list_ex (\<lambda>st. Type st = ''contentions'') sts)"
  by (induction sts arbitrary: i c d) auto

lemma sampleTypeIndices_snd:
  "0 \<le> i \<Longrightarrow> (snd (sampleTypeIndices sts i (c, d)) = - 1) =
     (d = - 1 \<and> \<not> list_ex (\<lambda>st. Type st = ''delay'') sts)"
  by (induction sts arbitrary: i c d) auto

lemma missing_columns:
  assumes "\<not> list_ex (\<lambda>st. Type st = ''contentions'') (SampleType p) \<or>
           \<not> list_ex (\<lambda>st. Type st = ''delay'') (SampleType p)"
  shows "aggregateProfile p = Inl MissingSampleTypes"
proof -
  obtain c d where cd: "sampleTypeIndices (SampleType p) 0 (- 1, - 1) = (c, d)"
    by (cases "sampleTypeIndices (SampleType p) 0 (- 1, - 1)")
  have "c = - 1 \<or> d = - 1"
    using assms sampleTypeIndices_fst [of 0 "SampleType p" "- 1" "- 1"]
      sampleTypeIndices_snd [of 0 "SampleType p" "- 1" "- 1"] cd by auto
  then show ?thesis using cd by (auto simp: aggregateProfile_def)
qed

lemma unknown_kind_matches_nothing:
  "k \<notin> {''cpu'', ''heap'', ''allocs'', ''mutex'', ''block''} \<Longrightarrow> \<not> sampleTypeMatches k st"
  by (simp add: sampleTypeMatches_def)

text \<open>
  Claim C10 (the column lookup of the comparison never fails). For every baseline
  profile and every kind string, \<open>getValueIndex\<close> returns an index and no error; when no
  column matches the kind, and so for every kind it does not know, the index is 1 if the
  profile declares more than one column and 0 otherwise; \<open>CompareProfiles\<close> returns a
  report and never an error; the block and mutex analyzers return the
  missing-sample-type error as soon as the "contentions" or the "delay" column is absent.
\<close>

theorem getValueIndex_never_fails:
  "(\<exists>i. getValueIndex p profileType = Inr i) \<and>
   (\<not> list_ex (sampleTypeMatches profileType) (SampleType p) \<longrightarrow>
      getValueIndex p profileType = Inr (if length (SampleType p) > 1 then 1 else 0)) \<and>
   (profileType \<notin> {''cpu'', ''heap'', ''allocs'', ''mutex'', ''block''} \<longrightarrow>
      getValueIndex p profileType = Inr (if length (SampleType p) > 1 then 1 else 0)) \<and>
   (\<exists>r. CompareProfiles seed p target profileType topN format = Inr r) \<and>
   (\<not> list_ex (\<lambda>st. Type st = ''contentions'') (SampleType p) \<or>
    \<not> list_ex (\<lambda>st. Type st = ''delay'') (SampleType p) \<longrightarrow>
      AnalyzeBlockProfile seed p topN format = Inl MissingSampleTypes \<and>
      AnalyzeMutexProfile seed p topN format = Inl MissingSampleTypes)"
proof -
  have "profileType \<notin> {''cpu'', ''heap'', ''allocs'', ''mutex'', ''block''} \<Longrightarrow>
        \<not> list_ex (sampleTypeMatches profileType) (SampleType p)"
    using unknown_kind_matches_nothing [of profileType]
    by (simp add: list_ex_iff del: insert_iff)
  then show ?thesis
    using getValueIndex_total [of p profileType] getValueIndex_fallback [of profileType p]
      CompareProfiles_total [of seed p target profileType topN format]
      missing_columns [of p]
    by (auto simp: AnalyzeBlockProfile_def AnalyzeMutexProfile_def analyzeContention_def
        simp del: insert_iff)
qed

text \<open>
  Claim C10 at a profile with the single column "samples"/"count": the kind "block" finds
  no "delay" column and the kind "trace" is unknown, both fall back to column 0, the
  comparison returns a report, and the block and mutex analyzers fail.
\<close>

theorem getValueIndex_never_fails_witness:
  "\<not> list_ex (sampleTypeMatches ''block'') (SampleType oneColumnProfile) \<and>
   ''trace'' \<notin> {''cpu'', ''heap'', ''allocs'', ''mutex'', ''block''} \<and>
   \<not> list_ex (\<lambda>st. Type st = ''contentions'') (SampleType oneColumnProfile) \<and>
   getValueIndex oneColumnProfile ''block'' = Inr 0 \<and>
   getValueIndex oneColumnProfile ''trace'' = Inr 0 \<and>
   (\<exists>r. CompareProfiles [] oneColumnProfile oneColumnProfile ''block'' 5 ''text'' = Inr r) \<and>
   AnalyzeBlockProfile [] oneColumnProfile 5 ''text'' = Inl MissingSampleTypes \<and>
   AnalyzeMutexProfile [] oneColumnProfile 5 ''text'' = Inl MissingSampleTypes"
  using getValueIndex_never_fails
          [of oneColumnProfile "''block''" "[]" oneColumnProfile 5 "''text''"]
    getValueIndex_never_fails
          [of oneColumnProfile "''trace''" "[]" oneColumnProfile 5 "''text''"]
  by (simp add: oneColumnProfile_def sampleTypeMatches_def)

section \<open>The preconditions of the time-series analysis\<close>

lemma extractTimeSeriesData_ok:
  "length labels = length profiles \<Longrightarrow>
   \<exists>series. extractTimeSeriesData profiles labels = Inr series \<and>
     length series = length profiles"
  by (induction profiles labels rule: extractTimeSeriesData.induct) auto

text \<open>
  Claim C5, as amended. With fewer than 3 profiles the analysis returns, before anything
  else, the error whose message states the count 3 and the number of profiles. With at
  least 3 profiles and a different number of labels it returns the error whose message
  states the number of labels and the number of profiles. With at least 3 profiles and
  as many labels it returns a report and no error.
\<close>

theorem heap_series_preconditions:
  "(length profiles < 3 \<longrightarrow>
      AnalyzeHeapTimeSeries seed profiles labels format =
        Inl (TooFewProfiles (length profiles))) \<and>
   (3 \<le> length profiles \<and> length labels \<noteq> length profiles \<longrightarrow>
      AnalyzeHeapTimeSeries seed profiles labels format =
        Inl (LabelCountMismatch (length labels) (length profiles))) \<and>
   (3 \<le> length profiles \<and> length labels = length profiles \<longrightarrow>
      (\<exists>r. AnalyzeHeapTimeSeries seed profiles labels format = Inr r)) \<and>
   (\<exists>a b c. errorMessage (TooFewProfiles (length profiles)) =
      a @ ''3'' @ b @ digits (length profiles) @ c) \<and>
   (\<exists>a b c. errorMessage (LabelCountMismatch (length labels) (length profiles)) =
      a @ digits (length labels) @ b @ digits (length profiles) @ c)"
proof -
  have ok: "3 \<le> length profiles \<and> length labels = length profiles \<longrightarrow>
      (\<exists>r. AnalyzeHeapTimeSeries seed profiles labels format = Inr r)"
  proof
    assume a: "3 \<le> length profiles \<and> length labels = length profiles"
    then obtain series where "extractTimeSeriesData profiles labels = Inr series"
      using extractTimeSeriesData_ok by blast
    with a show "\<exists>r. AnalyzeHeapTimeSeries seed profiles labels format = Inr r"
      by (simp add: AnalyzeHeapTimeSeries_def Let_def)
  qed
  have m1: "\<exists>a b c. errorMessage (TooFewProfiles (length profiles)) =
      a @ ''3'' @ b @ digits (length profiles) @ c"
    apply (rule exI [of _ "[CHR 0xE8, CHR 0x87, CHR 0xB3, CHR 0xE5, CHR 0xB0, CHR 0x91,
      CHR 0xE9, CHR 0x9C, CHR 0x80, CHR 0xE8, CHR 0xA6, CHR 0x81] @ '' ''"])
    apply (rule exI [of _ "'' '' @ [CHR 0xE4, CHR 0xB8, CHR 0xAA] @ '' profile ''
     @ [CHR 0xE6, CHR 0x9D, CHR 0xA5, CHR 0xE8, CHR 0xBF, CHR 0x9B, CHR 0xE8, CHR 0xA1, CHR 0x8C,
        CHR 0xE6, CHR 0x97, CHR 0xB6, CHR 0xE5, CHR 0xBA, CHR 0x8F, CHR 0xE5, CHR 0x88, CHR 0x86,
        CHR 0xE6, CHR 0x9E, CHR 0x90, CHR 0xEF, CHR 0xBC, CHR 0x8C, CHR 0xE5, CHR 0xBD, CHR 0x93,
        CHR 0xE5, CHR 0x89, CHR 0x8D, CHR 0xE5, CHR 0x8F, CHR 0xAA, CHR 0xE6, CHR 0x9C, CHR 0x89]
     @ '' ''"])
    apply (rule exI [of _ "'' '' @ [CHR 0xE4, CHR 0xB8, CHR 0xAA]"])
    apply simp
    done
  have m2: "\<exists>a b c. errorMessage (LabelCountMismatch (length labels) (length profiles)) =
      a @ digits (length labels) @ b @ digits (length profiles) @ c"
    apply (rule exI [of _ "[CHR 0xE6, CHR 0xA0, CHR 0x87, CHR 0xE7, CHR 0xAD, CHR 0xBE,
      CHR 0xE6, CHR 0x95, CHR 0xB0, CHR 0xE9, CHR 0x87, CHR 0x8F] @ '' (''"])
    apply (rule exI [of _ "'') '' @ [CHR 0xE4, CHR 0xB8, CHR 0x8E] @ '' profile ''
      @ [CHR 0xE6, CHR 0x95, CHR 0xB0, CHR 0xE9, CHR 0x87, CHR 0x8F] @ '' (''"])
    apply (rule exI [of _ "'') ''
      @ [CHR 0xE4, CHR 0xB8, CHR 0x8D, CHR 0xE5, CHR 0x8C, CHR 0xB9, CHR 0xE9, CHR 0x85, CHR 0x8D]"])
    apply simp
    done
  show ?thesis using ok m1 m2 by (simp add: AnalyzeHeapTimeSeries_def)
qed

text \<open>
  Claim C5 as stated fails where both preconditions are violated: with 2 profiles and 5
  labels the numbers differ, and the error returned is the one about too few profiles,
  whose message does not state the number of labels.
\<close>

theorem few_profiles_hide_label_count:
  "length [''a'', ''b'', ''c'', ''d'', ''e''] \<noteq> length [heapProfile [], heapProfile []] \<and>
   AnalyzeHeapTimeSeries [] [heapProfile [], heapProfile []]
       [''a'', ''b'', ''c'', ''d'', ''e''] ''text'' = Inl (TooFewProfiles 2) \<and>
   AnalyzeHeapTimeSeries [] [heapProfile [], heapProfile []]
       [''a'', ''b'', ''c'', ''d'', ''e''] ''text'' \<noteq> Inl (LabelCountMismatch 5 2) \<and>
   CHR ''5'' \<notin> set (errorMessage (TooFewProfiles 2))"
  by (simp add: AnalyzeHeapTimeSeries_def digits.simps)

text \<open>Claim C5, as amended, at 2 profiles, at 3 profiles with 2 labels, and at 3
  profiles with 3 labels.\<close>

theorem heap_series_preconditions_witness:
  "length [heapProfile [], heapProfile []] < 3 \<and>
   AnalyzeHeapTimeSeries [] [heapProfile [], heapProfile []] [''a'', ''b''] ''text'' =
     Inl (TooFewProfiles 2) \<and>
   3 \<le> length [heapProfile [], heapProfile [], heapProfile []] \<and>
   length [''a'', ''b''] \<noteq> length [heapProfile [], heapProfile [], heapProfile []] \<and>
   AnalyzeHeapTimeSeries [] [heapProfile [], heapProfile [], heapProfile []]
       [''a'', ''b''] ''text'' = Inl (LabelCountMismatch 2 3) \<and>
   length [''a'', ''b'', ''c''] = length [heapProfile [], heapProfile [], heapProfile []] \<and>
   (\<exists>r. AnalyzeHeapTimeSeries [] [heapProfile [], heapProfile [], heapProfile []]
       [''a'', ''b'', ''c''] ''text'' = Inr r)"
  using heap_series_preconditions
          [of "[heapProfile [], heapProfile []]" "[]" "[''a'', ''b'']" "''text''"]
    heap_series_preconditions
          [of "[heapProfile [], heapProfile [], heapProfile []]" "[]" "[''a'', ''b'']" "''text''"]
    heap_series_preconditions
          [of "[heapProfile [], heapProfile [], heapProfile []]" "[]" "[''a'', ''b'', ''c'']"
              "''text''"]
  by simp

section \<open>Table rows\<close>


lemma map_snd_tableRows: "map snd (tableRows topN xs) = take (nat topN) xs"
  by (rule nth_equalityI) (auto simp: tableRows_def rowLimit_def split: if_splits)

lemma sorted_wrt_take: "sorted_wrt P xs \<Longrightarrow> sorted_wrt P (take n xs)"
  by (metis append_take_drop_id sorted_wrt_append)

section \<open>The entries and the summary of a comparison\<close>

lemmas diff_eval =
  CompareProfiles_def getValueIndex_def sampleTypeMatches_def heapProfile_def sampleOf_def
  aggregateFunctionValues_def addSampleValue_def lookup0_def rankedDiffs_def
  computeFunctionDiffs_def allFuncs_def functionDiff_def computeDiffSummary_def countDiff_def
  sort_Slice_def lt64_def to_float_def Let_def formatDiffReport_def tableRows_def rowLimit_def







lemma CompareProfiles_unfold:
  "\<exists>i. getValueIndex baseline kind = Inr i \<and>
     CompareProfiles seed baseline target kind topN format =
       (let bf = aggregateFunctionValues baseline i;
            tf = aggregateFunctionValues target i;
            ds = rankedDiffs seed bf tf;
            s = computeDiffSummary bf tf ds
        in if format = ''json'' then
             Inr (DiffJSON \<lparr>DiffProfileType = kind, DiffTopN = topN, Functions = ds,
                    Summary = s\<rparr>)
           else Inr (DiffTable (if format = ''markdown'' then Markdown else Text) s
                  (tableRows topN ds)))"
proof -
  obtain i where "getValueIndex baseline kind = Inr i"
    using getValueIndex_total by blast
  then show ?thesis by (simp add: CompareProfiles_def Let_def formatDiffReport_def)
qed




section \<open>The fields of an object trend\<close>

lemmas series_eval =
  AnalyzeHeapTimeSeries_def analyzeObjectTrends_def typeDataMapOf_def addProfile_def
  setTypeValue_def addTypeValue_def getObjectTypeFromSample_def objectTrend_def
  heapProfile_def sampleOf_def lookup0_def sort_Slice_def lt64_def to_float_def Let_def
  seriesPoint_def columnTotal_def computeTimeSeriesSummary_def countTrend_def
  formatTimeSeriesReport_def tableRows_def rowLimit_def














section \<open>The order of the ranked lists\<close>

lemma sorted_rankedStats:
  "sorted_wrt (\<lambda>a b. sint (DelayNanos b) \<le> sint (DelayNanos a)) (rankedStats seed agg)"
  unfolding rankedStats_def lt64_def
  by (rule sorted_sort_Slice [where key = "\<lambda>a. sint (DelayNanos a)"])

lemma sorted_rankedDiffs:
  "sorted_wrt (\<lambda>a b. \<bar>DiffPercentage b\<bar> \<le> \<bar>DiffPercentage a\<bar>) (rankedDiffs seed bf tf)"
  unfolding rankedDiffs_def
  by (rule sorted_sort_Slice [where key = "\<lambda>a. \<bar>DiffPercentage a\<bar>"])

lemma sorted_analyzeObjectTrends:
  "sorted_wrt (\<lambda>a b. GrowthPercent b \<le> GrowthPercent a) (analyzeObjectTrends seed profiles)"
  unfolding analyzeObjectTrends_def
  by (rule sorted_sort_Slice [where key = GrowthPercent])

lemma analyzeContention_cases:
  "analyzeContention k seed p topN format =
     (case aggregateProfile p of
        Inl e \<Rightarrow> Inl e
      | Inr agg \<Rightarrow>
          if totalContentions agg = 0 then Inr (NoContention k)
          else if format = ''json'' then
            (if list_all marshalable (rankedStats seed agg)
             then Inr (JSONReport \<lparr>ProfileType = k, TotalContentions = totalContentions agg,
                    TotalDelayNanos = totalDelay agg, TopN = topN,
                    Entries = rankedStats seed agg\<rparr>)
             else Inl MarshalFailed)
          else Inr (TableReport (if format = ''markdown'' then Markdown else Text)
                 (totalContentions agg) (totalDelay agg)
                 (tableRows topN (rankedStats seed agg))))"
  by (simp add: analyzeContention_def Let_def split: sum.split)

lemma contention_json_entries:
  "analyzeContention k seed p topN format = Inr (JSONReport r) \<Longrightarrow>
   \<exists>agg. aggregateProfile p = Inr agg \<and> Entries r = rankedStats seed agg \<and> TopN r = topN
     \<and> TotalContentions r = totalContentions agg"
  by (auto simp: analyzeContention_cases split: sum.splits if_splits)

lemma contention_table_rows:
  "analyzeContention k seed p topN format = Inr (TableReport f tc td rows) \<Longrightarrow>
   \<exists>agg. aggregateProfile p = Inr agg \<and> rows = tableRows topN (rankedStats seed agg)"
  by (auto simp: analyzeContention_cases split: sum.splits if_splits)

lemma AnalyzeHeapTimeSeries_trends:
  "AnalyzeHeapTimeSeries seed profiles labels format = Inr (SeriesJSON r) \<Longrightarrow>
     Trends r = analyzeObjectTrends seed profiles"
  "AnalyzeHeapTimeSeries seed profiles labels format = Inr (SeriesTable f series trends s) \<Longrightarrow>
     trends = take 10 (analyzeObjectTrends seed profiles)"
  by (auto simp: AnalyzeHeapTimeSeries_def Let_def formatTimeSeriesReport_def map_snd_tableRows
      split: if_splits sum.splits)

text \<open>
  Claim C7 (every ranked list is sorted before it is rendered). Whatever the order in
  which the maps are ranged over: the statistics of a block or mutex report, in its JSON
  array and in its table rows, are in descending order of the delay (compared as signed
  64-bit values); the entries of a comparison are in descending order of the absolute
  value of the percentage; the trends of a time-series analysis are in descending order
  of the growth percentage. Entries with equal keys may come in any order.
\<close>

theorem ranked_lists_sorted:
  "(\<forall>r. analyzeContention k seed p topN format = Inr (JSONReport r) \<longrightarrow>
      sorted_wrt (\<lambda>a b. sint (DelayNanos b) \<le> sint (DelayNanos a)) (Entries r)) \<and>
   (\<forall>f tc td rows. analyzeContention k seed p topN format = Inr (TableReport f tc td rows) \<longrightarrow>
      sorted_wrt (\<lambda>a b. sint (DelayNanos b) \<le> sint (DelayNanos a)) (map snd rows)) \<and>
   (\<forall>r. CompareProfiles seed baseline target kind topN format = Inr (DiffJSON r) \<longrightarrow>
      sorted_wrt (\<lambda>a b. \<bar>DiffPercentage b\<bar> \<le> \<bar>DiffPercentage a\<bar>) (Functions r)) \<and>
   (\<forall>f s rows. CompareProfiles seed baseline target kind topN format =
        Inr (DiffTable f s rows) \<longrightarrow>
      sorted_wrt (\<lambda>a b. \<bar>DiffPercentage b\<bar> \<le> \<bar>DiffPercentage a\<bar>) (map snd rows)) \<and>
   sorted_wrt (\<lambda>a b. GrowthPercent b \<le> GrowthPercent a) (analyzeObjectTrends seed profiles) \<and>
   (\<forall>r. AnalyzeHeapTimeSeries seed profiles labels format = Inr (SeriesJSON r) \<longrightarrow>
      sorted_wrt (\<lambda>a b. GrowthPercent b \<le> GrowthPercent a) (Trends r)) \<and>
   (\<forall>f series trends s.
      AnalyzeHeapTimeSeries seed profiles labels format = Inr (SeriesTable f series trends s) \<longrightarrow>
      sorted_wrt (\<lambda>a b. GrowthPercent b \<le> GrowthPercent a) trends)"
proof -
  have c1: "\<forall>r. analyzeContention k seed p topN format = Inr (JSONReport r) \<longrightarrow>
      sorted_wrt (\<lambda>a b. sint (DelayNanos b) \<le> sint (DelayNanos a)) (Entries r)"
    using contention_json_entries sorted_rankedStats by metis
  have c2: "\<forall>f tc td rows.
      analyzeContention k seed p topN format = Inr (TableReport f tc td rows) \<longrightarrow>
      sorted_wrt (\<lambda>a b. sint (DelayNanos b) \<le> sint (DelayNanos a)) (map snd rows)"
  proof (intro allI impI)
    fix f tc td rows
    assume "analyzeContention k seed p topN format = Inr (TableReport f tc td rows)"
    then obtain agg where "rows = tableRows topN (rankedStats seed agg)"
      using contention_table_rows by blast
    then show "sorted_wrt (\<lambda>a b. sint (DelayNanos b) \<le> sint (DelayNanos a)) (map snd rows)"
      by (simp add: map_snd_tableRows sorted_wrt_take sorted_rankedStats)
  qed
  obtain i where u: "CompareProfiles seed baseline target kind topN format =
       (let bf = aggregateFunctionValues baseline i;
            tf = aggregateFunctionValues target i;
            ds = rankedDiffs seed bf tf;
            s = computeDiffSummary bf tf ds
        in if format = ''json'' then
             Inr (DiffJSON \<lparr>DiffProfileType = kind, DiffTopN = topN, Functions = ds,
                    Summary = s\<rparr>)
           else Inr (DiffTable (if format = ''markdown'' then Markdown else Text) s
                  (tableRows topN ds)))"
    using CompareProfiles_unfold [of baseline kind seed target topN format] by blast
  have d1: "\<forall>r. CompareProfiles seed baseline target kind topN format = Inr (DiffJSON r) \<longrightarrow>
      sorted_wrt (\<lambda>a b. \<bar>DiffPercentage b\<bar> \<le> \<bar>DiffPercentage a\<bar>) (Functions r)"
    using u by (auto simp: Let_def sorted_rankedDiffs split: if_splits)
  have d2: "\<forall>f s rows. CompareProfiles seed baseline target kind topN format =
        Inr (DiffTable f s rows) \<longrightarrow>
      sorted_wrt (\<lambda>a b. \<bar>DiffPercentage b\<bar> \<le> \<bar>DiffPercentage a\<bar>) (map snd rows)"
    using u
    by (auto simp: Let_def map_snd_tableRows sorted_wrt_take sorted_rankedDiffs
        split: if_splits)
  have t1: "\<forall>r. AnalyzeHeapTimeSeries seed profiles labels format = Inr (SeriesJSON r) \<longrightarrow>
      sorted_wrt (\<lambda>a b. GrowthPercent b \<le> GrowthPercent a) (Trends r)"
    using AnalyzeHeapTimeSeries_trends(1) sorted_analyzeObjectTrends by metis
  have t2: "\<forall>f series trends s.
      AnalyzeHeapTimeSeries seed profiles labels format = Inr (SeriesTable f series trends s) \<longrightarrow>
      sorted_wrt (\<lambda>a b. GrowthPercent b \<le> GrowthPercent a) trends"
    using AnalyzeHeapTimeSeries_trends(2) sorted_analyzeObjectTrends sorted_wrt_take by metis
  show ?thesis using c1 c2 d1 d2 t1 t2 sorted_analyzeObjectTrends by blast
qed

text \<open>
  Claim C7 at a block profile whose samples come in ascending order of delay, at a
  comparison of four functions and at a series of three types, in the JSON and in the
  table rendering of each.
\<close>

theorem ranked_lists_sorted_witness:
  "(\<exists>r. AnalyzeBlockProfile [1] twoFunctionProfile 2 ''json'' = Inr (JSONReport r) \<and>
      map FunctionName (Entries r) = [''main.channelReceive'', ''main.networkCall''] \<and>
      map DelayNanos (Entries r) = [30000000, 10000000]) \<and>
   (\<exists>f tc td rows.
      AnalyzeBlockProfile [1] twoFunctionProfile 2 ''text'' = Inr (TableReport f tc td rows) \<and>
      map (\<lambda>row. DelayNanos (snd row)) rows = [30000000, 10000000]) \<and>
   (\<exists>r. CompareProfiles [1] baselineHeap targetHeap ''heap'' 2 ''json'' = Inr (DiffJSON r) \<and>
      map DiffPercentage (Functions r) = [100, - 100, - 60, 50]) \<and>
   (\<exists>f s rows. CompareProfiles [1] baselineHeap targetHeap ''heap'' 2 ''text'' =
        Inr (DiffTable f s rows) \<and>
      map (\<lambda>row. DiffPercentage (snd row)) rows = [100, - 100]) \<and>
   (\<exists>r. AnalyzeHeapTimeSeries [1] threeTypeSeries [''t0'', ''t1'', ''t2''] ''json'' =
        Inr (SeriesJSON r) \<and>
      map GrowthPercent (Trends r) = [300, 5, - 50]) \<and>
   (\<exists>f series trends s.
      AnalyzeHeapTimeSeries [1] threeTypeSeries [''t0'', ''t1'', ''t2''] ''text'' =
        Inr (SeriesTable f series trends s) \<and>
      map GrowthPercent trends = [300, 5, - 50])"
  using ranked_lists_sorted [of Block "[1]" twoFunctionProfile 2 "''json''" baselineHeap
      targetHeap "''heap''" threeTypeSeries "[''t0'', ''t1'', ''t2'']"]
    ranked_lists_sorted [of Block "[1]" twoFunctionProfile 2 "''text''" baselineHeap
      targetHeap "''heap''" threeTypeSeries "[''t0'', ''t1'', ''t2'']"]
  by (simp add: twoFunctionProfile_def contention_eval baselineHeap_def targetHeap_def
      diff_eval threeTypeSeries_def series_eval upt_conv_Cons)

section \<open>The rows of the renderings\<close>





lemma foldl_update_keys:
  "distinct (map fst m) \<Longrightarrow>
   distinct (map fst (foldl (\<lambda>m name. AList.update name True m) m names)) \<and>
   fst ` set (foldl (\<lambda>m name. AList.update name True m) m names) = fst ` set m \<union> set names"
  by (induction names arbitrary: m) (auto simp: AList.distinct_update AList.dom_update)

lemma allFuncs_keys:
  "distinct (map fst (allFuncs bf tf))"
  "fst ` set (allFuncs bf tf) = fst ` set bf \<union> fst ` set tf"
  using foldl_update_keys [of "[]" "map fst bf"]
    foldl_update_keys [of "foldl (\<lambda>m name. AList.update name True m) [] (map fst bf)" "map fst tf"]
  by (auto simp: allFuncs_def)

lemma length_allFuncs: "length (allFuncs bf tf) = card (fst ` set bf \<union> fst ` set tf)"
  using allFuncs_keys [of bf tf] by (metis distinct_card length_map set_map)

lemma aggregateSample_distinct:
  "aggregateSample ci di agg s = Inr agg' \<Longrightarrow> distinct (map fst (contentionData agg)) \<Longrightarrow>
   distinct (map fst (contentionData agg'))"
  by (auto simp: aggregateSample_def Let_def AList.distinct_update split: if_splits option.splits)

lemma aggregateSamples_distinct:
  "aggregateSamples ci di agg ss = Inr agg' \<Longrightarrow> distinct (map fst (contentionData agg)) \<Longrightarrow>
   distinct (map fst (contentionData agg'))"
proof (induction ss arbitrary: agg)
  case Nil
  then show ?case by simp
next
  case (Cons s ss)
  then show ?case by (auto split: sum.splits dest: aggregateSample_distinct)
qed

lemma aggregateProfile_distinct:
  "aggregateProfile p = Inr agg \<Longrightarrow> distinct (map fst (contentionData agg))"
  by (auto simp: aggregateProfile_def emptyAggregation_def split: prod.splits if_splits
      dest!: aggregateSamples_distinct)





section \<open>Closure of the aggregation\<close>









lemma foldl_cond_add:
  fixes g :: "'s \<Rightarrow> 'a::ab_group_add"
  shows "foldl (\<lambda>total s. if c s then total + g s else total) a ss =
         a + sum_list (map (\<lambda>s. if c s then g s else 0) ss)"
  by (induction ss arbitrary: a) (simp_all add: algebra_simps)

lemma columnTotal_sum:
  "columnTotal idx ss =
     sum_list (map (\<lambda>s. if idx \<ge> 0 \<and> int (length (Value s)) > idx
                         then Value s ! nat idx else 0) ss)"
  unfolding columnTotal_def
  using foldl_cond_add [of "\<lambda>s. idx \<ge> 0 \<and> int (length (Value s)) > idx"
      "\<lambda>s. Value s ! nat idx" 0 ss]
  by simp

lemma columnTotal_Nil [simp]: "columnTotal idx [] = 0"
  by (simp add: columnTotal_sum)

















lemma Values_objectTrend [simp]: "Values (objectTrend name vs) = vs"
  by (simp add: objectTrend_def Let_def)














end
